theory Spec2Isabelle
  imports Complex_Main
begin

section \<open>Values that cross the HTTP boundary\<close>

text \<open>
  A request body is whatever \<open>express.json()\<close> parsed: a JSON value, or \<open>undefined\<close> when
  there was no body. JSON numbers are finite doubles; they are modelled as exact rationals
  (every finite double is one), so comparisons and \<open>Number.isInteger\<close> are exact and the
  rounding of a floating-point division is not modelled. An object keeps its members as
  an association list; a duplicated key reads as its last occurrence, as \<open>JSON.parse\<close>
  leaves it.
\<close>

datatype json =
    JUndefined
  | JNull
  | JBool bool
  | JNum rat
  | JStr string
  | JArr "json list"
  | JObj "(string \<times> json) list"

fun field :: "json \<Rightarrow> string \<Rightarrow> json" where
  "field (JObj kvs) k = (case map_of (rev kvs) k of None \<Rightarrow> JUndefined | Some v \<Rightarrow> v)"
| "field _ k = JUndefined"

text \<open>
  The result of a JavaScript arithmetic expression: a finite number, or one of the three
  values a division by zero produces.
\<close>

datatype jsnum = Num rat | NaN | PosInfinity | NegInfinity

definition js_div :: "rat \<Rightarrow> rat \<Rightarrow> jsnum" where
  "js_div a b =
     (if b = 0 then (if a = 0 then NaN else if 0 < a then PosInfinity else NegInfinity)
      else Num (a / b))"

text \<open>\<open>x++\<close> on an object member: a missing member is \<open>undefined\<close>, which becomes \<open>NaN\<close>.\<close>

fun js_incr :: "jsnum option \<Rightarrow> jsnum" where
  "js_incr (Some (Num n)) = Num (n + 1)"
| "js_incr (Some x) = x"
| "js_incr None = NaN"

section \<open>Schema validation (zod)\<close>

text \<open>
  A \<open>ZodError\<close> carries at least one issue; \<open>error.errors[0]\<close> is the first of them. An
  issue has the path of the offending member, zod's issue code, and a message: the text
  the schema gives, or the library's default text for the code, which is not part of this
  repository and is kept opaque.
\<close>

datatype msg = Text string | ZodDefault

datatype issue_code = invalid_type | invalid_string | invalid_enum_value | too_small | too_big

record issue =
  i_path :: "string list"
  i_code :: issue_code
  i_message :: msg

datatype exn = ZodError issue "issue list" | OtherError

text \<open>Collected issues become a \<open>ZodError\<close> when there is one; otherwise the parsed value stands.\<close>

fun zod_result :: "issue list \<Rightarrow> 'a \<Rightarrow> exn + 'a" where
  "zod_result [] v = Inr v"
| "zod_result (i # is) v = Inl (ZodError i is)"

definition is_object :: "json \<Rightarrow> bool" where
  "is_object j = (case j of JObj kvs \<Rightarrow> True | _ \<Rightarrow> False)"

definition not_an_object :: issue where
  "not_an_object = \<lparr>i_path = [], i_code = invalid_type, i_message = ZodDefault\<rparr>"

text \<open>\<open>z.string().optional()\<close>\<close>

definition optional_string :: "string \<Rightarrow> json \<Rightarrow> issue list" where
  "optional_string k j =
     (case j of
        JUndefined \<Rightarrow> []
      | JStr s \<Rightarrow> []
      | _ \<Rightarrow> [\<lparr>i_path = [k], i_code = invalid_type, i_message = ZodDefault\<rparr>])"

definition string_opt :: "json \<Rightarrow> string option" where
  "string_opt j = (case j of JStr s \<Rightarrow> Some s | _ \<Rightarrow> None)"

text \<open>\<open>z.string().uuid(m)\<close>; the pattern of a UUID is the library's and is a parameter.\<close>

definition uuid_string :: "(string \<Rightarrow> bool) \<Rightarrow> string \<Rightarrow> string \<Rightarrow> json \<Rightarrow> issue list" where
  "uuid_string accepts k m j =
     (case j of
        JStr s \<Rightarrow> (if accepts s then []
                   else [\<lparr>i_path = [k], i_code = invalid_string, i_message = Text m\<rparr>])
      | _ \<Rightarrow> [\<lparr>i_path = [k], i_code = invalid_type, i_message = ZodDefault\<rparr>])"

definition the_string :: "json \<Rightarrow> string" where
  "the_string j = (case j of JStr s \<Rightarrow> s | _ \<Rightarrow> [])"

definition is_integer :: "rat \<Rightarrow> bool" where
  "is_integer r = (of_int \<lfloor>r\<rfloor> = r)"

section \<open>The relational data\<close>

datatype Role = STUDENT | TUTOR | ADMIN

datatype UserStatus = ACTIVE | BANNED

datatype BookingStatus = PENDING | CONFIRMED | REJECTED | CANCELLED | COMPLETED

fun role_name :: "Role \<Rightarrow> string" where
  "role_name STUDENT = ''STUDENT''"
| "role_name TUTOR = ''TUTOR''"
| "role_name ADMIN = ''ADMIN''"

fun status_name :: "BookingStatus \<Rightarrow> string" where
  "status_name PENDING = ''PENDING''"
| "status_name CONFIRMED = ''CONFIRMED''"
| "status_name REJECTED = ''REJECTED''"
| "status_name CANCELLED = ''CANCELLED''"
| "status_name COMPLETED = ''COMPLETED''"

text \<open>
  The rows carry the columns the handlers below read or write. Timestamps are
  milliseconds since the epoch, which is what \<open>Date\<close> comparison compares.
\<close>

record user =
  u_id :: string
  u_email :: string
  u_password :: string
  u_name :: string
  u_role :: Role
  u_status :: UserStatus

record tutorProfile =
  p_userId :: string
  p_rating :: jsnum
  p_reviewCount :: nat

record booking =
  b_id :: string
  b_studentId :: string
  b_tutorId :: string
  b_dateTime :: int
  b_duration :: rat
  b_subject :: "string option"
  b_notes :: "string option"
  b_status :: BookingStatus

record review =
  r_id :: string
  r_bookingId :: string
  r_studentId :: string
  r_tutorId :: string
  r_rating :: int
  r_comment :: "string option"

text \<open>
  The database: one list of rows per table, in insertion order, and whether the client
  can reach it. Every Prisma call throws when it cannot; \<open>update\<close> also throws when no row
  matches. The constraints of the schema, which is not among the sources, are not
  modelled: an insert succeeds whenever the database is reached.
\<close>

record db =
  connected :: bool
  users :: "user list"
  profiles :: "tutorProfile list"
  bookings :: "booking list"
  reviews :: "review list"

definition booking_findUnique :: "db \<Rightarrow> string \<Rightarrow> exn + booking option" where
  "booking_findUnique d i =
     (if connected d then Inr (find (\<lambda>b. b_id b = i) (bookings d)) else Inl OtherError)"

definition booking_review :: "db \<Rightarrow> booking \<Rightarrow> review option" where
  "booking_review d b = find (\<lambda>r. r_bookingId r = b_id b) (reviews d)"

definition review_findMany :: "db \<Rightarrow> string \<Rightarrow> exn + review list" where
  "review_findMany d t =
     (if connected d then Inr (filter (\<lambda>r. r_tutorId r = t) (reviews d)) else Inl OtherError)"

definition review_create :: "db \<Rightarrow> review \<Rightarrow> exn + db" where
  "review_create d r =
     (if connected d then Inr (d\<lparr>reviews := reviews d @ [r]\<rparr>) else Inl OtherError)"

definition tutorProfile_update ::
  "db \<Rightarrow> string \<Rightarrow> (tutorProfile \<Rightarrow> tutorProfile) \<Rightarrow> exn + db" where
  "tutorProfile_update d t f =
     (if connected d \<and> find (\<lambda>p. p_userId p = t) (profiles d) \<noteq> None
      then Inr (d\<lparr>profiles := map (\<lambda>p. if p_userId p = t then f p else p) (profiles d)\<rparr>)
      else Inl OtherError)"

section \<open>Requests and responses\<close>

text \<open>\<open>req.user\<close> is the decoded token, set by the authentication middleware.\<close>

record jwtPayload =
  userId :: string
  email :: string
  role :: string

record request =
  req_user :: "jwtPayload option"
  req_id :: string
  req_body :: json

text \<open>
  What the process supplies besides the request: the library's string patterns and date
  parser, the clock, the identifier the database gives a new row, the status the
  database schema gives a new user (the schema is not among the sources), and the two
  utilities \<open>hashPassword\<close> and \<open>generateToken\<close>.
\<close>

record env =
  is_uuid :: "string \<Rightarrow> bool"
  is_email :: "string \<Rightarrow> bool"
  is_datetime :: "string \<Rightarrow> bool"
  date_of :: "string \<Rightarrow> int"
  now :: int
  new_id :: string
  user_status_default :: UserStatus
  hashPassword :: "string \<Rightarrow> string"
  generateToken :: "jwtPayload \<Rightarrow> string"

text \<open>The columns of a user that \<open>register\<close> selects for its answer: all but the password.\<close>

record userView =
  v_id :: string
  v_email :: string
  v_name :: string
  v_role :: Role
  v_status :: UserStatus

datatype payload =
    BookingData booking
  | ReviewData review
  | UserData userView string
  | TutorReviews "review list" nat jsnum "(int \<times> jsnum) list"

datatype body =
    ErrorBody string string
  | ValidationBody string msg "issue list"
  | FieldBody string msg "(string \<times> msg) list"
  | MessageBody string payload
  | DataBody payload

datatype response = Response (res_status: nat) (res_body: body)

text \<open>The \<open>catch\<close> block every controller ends with; \<open>m\<close> is its fixed 500 message.\<close>

fun catch_block :: "string \<Rightarrow> exn \<Rightarrow> response" where
  "catch_block m (ZodError i is) =
     Response 400 (ValidationBody ''Validation Error'' (i_message i) (i # is))"
| "catch_block m OtherError = Response 500 (ErrorBody ''Internal Server Error'' m)"

definition unauthorized :: response where
  "unauthorized = Response 401 (ErrorBody ''Unauthorized'' ''Not authenticated'')"

section \<open>reviewController\<close>

record createReviewData =
  cr_bookingId :: string
  cr_rating :: int
  cr_comment :: "string option"

text \<open>\<open>z.number().int().min(1, ...).max(5, ...)\<close>: every check that fails adds its issue.\<close>

definition rating_issues :: "json \<Rightarrow> issue list" where
  "rating_issues j =
     (case j of
        JNum r \<Rightarrow>
          (if is_integer r then []
           else [\<lparr>i_path = [''rating''], i_code = invalid_type, i_message = ZodDefault\<rparr>]) @
          (if r < 1
           then [\<lparr>i_path = [''rating''], i_code = too_small,
                  i_message = Text ''Rating must be at least 1''\<rparr>]
           else []) @
          (if 5 < r
           then [\<lparr>i_path = [''rating''], i_code = too_big,
                  i_message = Text ''Rating must be at most 5''\<rparr>]
           else [])
      | _ \<Rightarrow> [\<lparr>i_path = [''rating''], i_code = invalid_type, i_message = ZodDefault\<rparr>])"

definition rating_of :: "json \<Rightarrow> int" where
  "rating_of j = (case j of JNum r \<Rightarrow> \<lfloor>r\<rfloor> | _ \<Rightarrow> 0)"

definition createReviewSchema :: "env \<Rightarrow> json \<Rightarrow> exn + createReviewData" where
  "createReviewSchema e j =
     (if \<not> is_object j then Inl (ZodError not_an_object [])
      else zod_result
             (uuid_string (is_uuid e) ''bookingId'' ''Invalid booking ID'' (field j ''bookingId'') @
              rating_issues (field j ''rating'') @
              optional_string ''comment'' (field j ''comment''))
             \<lparr>cr_bookingId = the_string (field j ''bookingId''),
              cr_rating = rating_of (field j ''rating''),
              cr_comment = string_opt (field j ''comment'')\<rparr>)"

text \<open>
  The body of \<open>createReview\<close>'s \<open>try\<close>: what it answers or throws, and the database it
  leaves. The created review stays when the profile update after it throws.
\<close>

definition createReview_try :: "env \<Rightarrow> request \<Rightarrow> db \<Rightarrow> (exn + response) \<times> db" where
  "createReview_try e req d =
     (case req_user req of
        None \<Rightarrow> (Inr unauthorized, d)
      | Some u \<Rightarrow>
        (case createReviewSchema e (req_body req) of
           Inl x \<Rightarrow> (Inl x, d)
         | Inr validatedData \<Rightarrow>
           (case booking_findUnique d (cr_bookingId validatedData) of
              Inl x \<Rightarrow> (Inl x, d)
            | Inr None \<Rightarrow> (Inr (Response 404 (ErrorBody ''Not Found'' ''Booking not found'')), d)
            | Inr (Some b) \<Rightarrow>
                if b_studentId b \<noteq> userId u
                then (Inr (Response 403
                        (ErrorBody ''Forbidden'' ''You can only review your own bookings'')), d)
                else if b_status b \<noteq> COMPLETED
                then (Inr (Response 400
                        (ErrorBody ''Bad Request'' ''You can only review completed bookings'')), d)
                else if booking_review d b \<noteq> None
                then (Inr (Response 400
                        (ErrorBody ''Bad Request'' ''You have already reviewed this booking'')), d)
                else
                  (let r = \<lparr>r_id = new_id e,
                            r_bookingId = cr_bookingId validatedData,
                            r_studentId = userId u,
                            r_tutorId = b_tutorId b,
                            r_rating = cr_rating validatedData,
                            r_comment = cr_comment validatedData\<rparr>
                   in case review_create d r of
                        Inl x \<Rightarrow> (Inl x, d)
                      | Inr d1 \<Rightarrow>
                        (case review_findMany d1 (b_tutorId b) of
                           Inl x \<Rightarrow> (Inl x, d1)
                         | Inr tutorReviews \<Rightarrow>
                           (let avgRating =
                                  js_div (of_int (sum_list (map r_rating tutorReviews)))
                                         (of_nat (length tutorReviews))
                            in case tutorProfile_update d1 (b_tutorId b)
                                      (\<lambda>p. p\<lparr>p_rating := avgRating,
                                              p_reviewCount := length tutorReviews\<rparr>) of
                                 Inl x \<Rightarrow> (Inl x, d1)
                               | Inr d2 \<Rightarrow>
                                   (Inr (Response 201
                                      (MessageBody ''Review created successfully''
                                         (ReviewData r))), d2)))))))"

definition createReview :: "env \<Rightarrow> request \<Rightarrow> db \<Rightarrow> response \<times> db" where
  "createReview e req d =
     (case createReview_try e req d of
        (Inr res, d') \<Rightarrow> (res, d')
      | (Inl x, d') \<Rightarrow> (catch_block ''Failed to create review'' x, d'))"

text \<open>
  \<open>getTutorReviews\<close>. The distribution object starts with the members 1 to 5; a rating
  outside them adds a member holding \<open>NaN\<close>. \<open>orderBy createdAt desc\<close> is the reverse of
  the insertion order.
\<close>

definition distribution_incr :: "(int \<times> jsnum) list \<Rightarrow> int \<Rightarrow> (int \<times> jsnum) list" where
  "distribution_incr m k =
     (if k \<in> fst ` set m
      then map (\<lambda>(k', c). if k' = k then (k', js_incr (Some c)) else (k', c)) m
      else m @ [(k, js_incr None)])"

definition ratingDistribution :: "review list \<Rightarrow> (int \<times> jsnum) list" where
  "ratingDistribution rs =
     foldl (\<lambda>m r. distribution_incr m (r_rating r))
       [(1, Num 0), (2, Num 0), (3, Num 0), (4, Num 0), (5, Num 0)] rs"

definition avgRating :: "review list \<Rightarrow> jsnum" where
  "avgRating rs =
     (if length rs > 0
      then js_div (of_int (sum_list (map r_rating rs))) (of_nat (length rs))
      else Num 0)"


section \<open>bookingController\<close>

definition user_findUnique :: "db \<Rightarrow> string \<Rightarrow> exn + user option" where
  "user_findUnique d i =
     (if connected d then Inr (find (\<lambda>u. u_id u = i) (users d)) else Inl OtherError)"

text \<open>The relation \<open>tutorProfile\<close> of a user row, as \<open>include: { tutorProfile: true }\<close> loads it.\<close>

definition user_tutorProfile :: "db \<Rightarrow> user \<Rightarrow> tutorProfile option" where
  "user_tutorProfile d u = find (\<lambda>p. p_userId p = u_id u) (profiles d)"

definition booking_create :: "db \<Rightarrow> booking \<Rightarrow> exn + db" where
  "booking_create d b =
     (if connected d then Inr (d\<lparr>bookings := bookings d @ [b]\<rparr>) else Inl OtherError)"

definition booking_update :: "db \<Rightarrow> string \<Rightarrow> (booking \<Rightarrow> booking) \<Rightarrow> exn + db" where
  "booking_update d i f =
     (if connected d \<and> find (\<lambda>b. b_id b = i) (bookings d) \<noteq> None
      then Inr (d\<lparr>bookings := map (\<lambda>b. if b_id b = i then f b else b) (bookings d)\<rparr>)
      else Inl OtherError)"

text \<open>
  Modelled from the spec: the Prisma schema, which declares the default of the column
  \<open>Booking.status\<close>, is not among the sources. \<open>createBooking\<close> does not set the column, so a
  new booking has the schema's default; the specification's graph of transitions starts
  at \<open>PENDING\<close>, the one status no handler ever writes.
\<close>

definition booking_status_default :: BookingStatus where
  "booking_status_default = PENDING"

record createBookingData =
  cb_tutorId :: string
  cb_dateTime :: string
  cb_duration :: rat
  cb_subject :: "string option"
  cb_notes :: "string option"

text \<open>\<open>z.string().datetime(m)\<close>; the accepted format is the library's and is a parameter.\<close>

definition datetime_string :: "(string \<Rightarrow> bool) \<Rightarrow> string \<Rightarrow> string \<Rightarrow> json \<Rightarrow> issue list" where
  "datetime_string accepts k m j =
     (case j of
        JStr s \<Rightarrow> (if accepts s then []
                   else [\<lparr>i_path = [k], i_code = invalid_string, i_message = Text m\<rparr>])
      | _ \<Rightarrow> [\<lparr>i_path = [k], i_code = invalid_type, i_message = ZodDefault\<rparr>])"

text \<open>\<open>z.number().positive(...).default(60)\<close>\<close>

definition duration_issues :: "json \<Rightarrow> issue list" where
  "duration_issues j =
     (case j of
        JUndefined \<Rightarrow> []
      | JNum r \<Rightarrow> (if 0 < r then []
                   else [\<lparr>i_path = [''duration''], i_code = too_small,
                          i_message = Text ''Duration must be positive''\<rparr>])
      | _ \<Rightarrow> [\<lparr>i_path = [''duration''], i_code = invalid_type, i_message = ZodDefault\<rparr>])"

definition duration_of :: "json \<Rightarrow> rat" where
  "duration_of j = (case j of JNum r \<Rightarrow> r | _ \<Rightarrow> 60)"

text \<open>\<open>z.string().min(1, ...).optional()\<close>\<close>

definition notes_issues :: "json \<Rightarrow> issue list" where
  "notes_issues j =
     (case j of
        JUndefined \<Rightarrow> []
      | JStr s \<Rightarrow> (if 1 \<le> length s then []
                   else [\<lparr>i_path = [''notes''], i_code = too_small,
                          i_message = Text ''Message is required''\<rparr>])
      | _ \<Rightarrow> [\<lparr>i_path = [''notes''], i_code = invalid_type, i_message = ZodDefault\<rparr>])"

definition createBookingSchema :: "env \<Rightarrow> json \<Rightarrow> exn + createBookingData" where
  "createBookingSchema e j =
     (if \<not> is_object j then Inl (ZodError not_an_object [])
      else zod_result
             (uuid_string (is_uuid e) ''tutorId'' ''Invalid tutor ID'' (field j ''tutorId'') @
              datetime_string (is_datetime e) ''dateTime'' ''Invalid date time format''
                (field j ''dateTime'') @
              duration_issues (field j ''duration'') @
              optional_string ''subject'' (field j ''subject'') @
              notes_issues (field j ''notes''))
             \<lparr>cb_tutorId = the_string (field j ''tutorId''),
              cb_dateTime = the_string (field j ''dateTime''),
              cb_duration = duration_of (field j ''duration''),
              cb_subject = string_opt (field j ''subject''),
              cb_notes = string_opt (field j ''notes'')\<rparr>)"

definition createBooking_try :: "env \<Rightarrow> request \<Rightarrow> db \<Rightarrow> (exn + response) \<times> db" where
  "createBooking_try e req d =
     (case req_user req of
        None \<Rightarrow> (Inr unauthorized, d)
      | Some u \<Rightarrow>
        (case createBookingSchema e (req_body req) of
           Inl x \<Rightarrow> (Inl x, d)
         | Inr validatedData \<Rightarrow>
           (case user_findUnique d (cb_tutorId validatedData) of
              Inl x \<Rightarrow> (Inl x, d)
            | Inr tutor \<Rightarrow>
                if (case tutor of
                      None \<Rightarrow> True
                    | Some t \<Rightarrow> u_role t \<noteq> TUTOR \<or> user_tutorProfile d t = None)
                then (Inr (Response 404 (ErrorBody ''Not Found'' ''Tutor not found'')), d)
                else if map_option u_status tutor = Some BANNED
                then (Inr (Response 400
                        (ErrorBody ''Bad Request'' ''This tutor is not available'')), d)
                else
                  (let b = \<lparr>b_id = new_id e,
                            b_studentId = userId u,
                            b_tutorId = cb_tutorId validatedData,
                            b_dateTime = date_of e (cb_dateTime validatedData),
                            b_duration = cb_duration validatedData,
                            b_subject = cb_subject validatedData,
                            b_notes = cb_notes validatedData,
                            b_status = booking_status_default\<rparr>
                   in case booking_create d b of
                        Inl x \<Rightarrow> (Inl x, d)
                      | Inr d1 \<Rightarrow>
                          (Inr (Response 201
                             (MessageBody ''Booking request sent! Awaiting tutor approval.''
                                (BookingData b))), d1)))))"

definition createBooking :: "env \<Rightarrow> request \<Rightarrow> db \<Rightarrow> response \<times> db" where
  "createBooking e req d =
     (case createBooking_try e req d of
        (Inr res, d') \<Rightarrow> (res, d')
      | (Inl x, d') \<Rightarrow> (catch_block ''Failed to create booking'' x, d'))"

text \<open>\<open>getBookingById\<close> reads only; its \<open>catch\<close> has the 500 answer alone.\<close>

definition getBookingById :: "request \<Rightarrow> db \<Rightarrow> response" where
  "getBookingById req d =
     (case req_user req of
        None \<Rightarrow> unauthorized
      | Some u \<Rightarrow>
        (case booking_findUnique d (req_id req) of
           Inl x \<Rightarrow> Response 500 (ErrorBody ''Internal Server Error'' ''Failed to fetch booking'')
         | Inr None \<Rightarrow> Response 404 (ErrorBody ''Not Found'' ''Booking not found'')
         | Inr (Some b) \<Rightarrow>
             if role u \<noteq> ''ADMIN'' \<and> b_studentId b \<noteq> userId u \<and> b_tutorId b \<noteq> userId u
             then Response 403
                    (ErrorBody ''Forbidden'' ''You do not have access to this booking'')
             else Response 200 (DataBody (BookingData b))))"

record updateBookingStatusData =
  us_action :: string
  us_reason :: "string option"

text \<open>\<open>z.enum([...], { errorMap })\<close>: the error map gives every issue of the member its text.\<close>

definition action_issues :: "json \<Rightarrow> issue list" where
  "action_issues j =
     (case j of
        JStr s \<Rightarrow>
          (if s \<in> set [''approve'', ''reject'', ''cancel'', ''complete''] then []
           else [\<lparr>i_path = [''action''], i_code = invalid_enum_value,
                  i_message = Text ''Action must be approve, reject, cancel, or complete''\<rparr>])
      | _ \<Rightarrow> [\<lparr>i_path = [''action''], i_code = invalid_type,
                i_message = Text ''Action must be approve, reject, cancel, or complete''\<rparr>])"

definition updateBookingStatusSchema :: "json \<Rightarrow> exn + updateBookingStatusData" where
  "updateBookingStatusSchema j =
     (if \<not> is_object j then Inl (ZodError not_an_object [])
      else zod_result
             (action_issues (field j ''action'') @ optional_string ''reason'' (field j ''reason''))
             \<lparr>us_action = the_string (field j ''action''),
              us_reason = string_opt (field j ''reason'')\<rparr>)"

text \<open>
  A string in a condition: \<open>null\<close>, \<open>undefined\<close> and the empty string are false. The notes
  the reject and cancel branches write, \<open>tag\<close> being the bracketed heading.
\<close>

definition truthy :: "string option \<Rightarrow> bool" where
  "truthy s = (case s of None \<Rightarrow> False | Some t \<Rightarrow> t \<noteq> [])"

definition notes_with_reason :: "string \<Rightarrow> string option \<Rightarrow> string option \<Rightarrow> string option" where
  "notes_with_reason tag reason notes =
     (case reason of
        None \<Rightarrow> notes
      | Some r \<Rightarrow>
          if r = [] then notes
          else Some ((case notes of
                        None \<Rightarrow> []
                      | Some n \<Rightarrow> if n = [] then [] else n @ [CHR 0x0A, CHR 0x0A]) @
                     tag @ [CHR 0x0A] @ r))"

text \<open>
  The \<open>switch\<close> of \<open>updateBookingStatus\<close>: either the response of an early \<open>return\<close>, or the
  message and the update to make.
\<close>

definition action_switch ::
  "env \<Rightarrow> jwtPayload \<Rightarrow> updateBookingStatusData \<Rightarrow> booking \<Rightarrow>
   response + (string \<times> (booking \<Rightarrow> booking))" where
  "action_switch e u v b =
     (if us_action v = ''approve'' then
        (if b_tutorId b \<noteq> userId u
         then Inl (Response 403 (ErrorBody ''Forbidden'' ''Only the tutor can approve bookings''))
         else if b_status b \<noteq> PENDING
         then Inl (Response 400 (ErrorBody ''Bad Request''
                     (''Cannot approve booking with status '' @ status_name (b_status b))))
         else Inr (''Booking approved successfully'', \<lambda>x. x\<lparr>b_status := CONFIRMED\<rparr>))
      else if us_action v = ''reject'' then
        (if b_tutorId b \<noteq> userId u
         then Inl (Response 403 (ErrorBody ''Forbidden'' ''Only the tutor can reject bookings''))
         else if b_status b \<noteq> PENDING
         then Inl (Response 400 (ErrorBody ''Bad Request''
                     (''Cannot reject booking with status '' @ status_name (b_status b))))
         else Inr (''Booking rejected'',
                   \<lambda>x. x\<lparr>b_status := REJECTED,
                          b_notes := notes_with_reason ''[REJECTION REASON]'' (us_reason v)
                                       (b_notes b)\<rparr>))
      else if us_action v = ''cancel'' then
        (if \<not> (b_studentId b = userId u) \<and> \<not> (b_tutorId b = userId u)
         then Inl (Response 403 (ErrorBody ''Forbidden''
                     ''Only the student or tutor can cancel this booking''))
         else if b_status b \<noteq> PENDING \<and> b_status b \<noteq> CONFIRMED
         then Inl (Response 400 (ErrorBody ''Bad Request''
                     (''Cannot cancel booking with status '' @ status_name (b_status b))))
         else Inr (''Booking cancelled successfully'',
                   \<lambda>x. x\<lparr>b_status := CANCELLED,
                          b_notes := notes_with_reason ''[CANCELLATION REASON]'' (us_reason v)
                                       (b_notes b)\<rparr>))
      else if us_action v = ''complete'' then
        (if b_tutorId b \<noteq> userId u
         then Inl (Response 403 (ErrorBody ''Forbidden''
                     ''Only the tutor can mark bookings as completed''))
         else if b_status b \<noteq> CONFIRMED
         then Inl (Response 400 (ErrorBody ''Bad Request''
                     (''Cannot complete booking with status '' @ status_name (b_status b))))
         else if now e < b_dateTime b
         then Inl (Response 400 (ErrorBody ''Bad Request''
                     ''Cannot mark booking as completed before the scheduled time''))
         else Inr (''Booking marked as completed'', \<lambda>x. x\<lparr>b_status := COMPLETED\<rparr>))
      else Inl (Response 400 (ErrorBody ''Bad Request'' ''Invalid action'')))"

definition updateBookingStatus_try :: "env \<Rightarrow> request \<Rightarrow> db \<Rightarrow> (exn + response) \<times> db" where
  "updateBookingStatus_try e req d =
     (case req_user req of
        None \<Rightarrow> (Inr unauthorized, d)
      | Some u \<Rightarrow>
        (case updateBookingStatusSchema (req_body req) of
           Inl x \<Rightarrow> (Inl x, d)
         | Inr validatedData \<Rightarrow>
           (case booking_findUnique d (req_id req) of
              Inl x \<Rightarrow> (Inl x, d)
            | Inr None \<Rightarrow> (Inr (Response 404 (ErrorBody ''Not Found'' ''Booking not found'')), d)
            | Inr (Some b) \<Rightarrow>
              (case action_switch e u validatedData b of
                 Inl res \<Rightarrow> (Inr res, d)
               | Inr (message, updateData) \<Rightarrow>
                 (case booking_update d (req_id req) updateData of
                    Inl x \<Rightarrow> (Inl x, d)
                  | Inr d1 \<Rightarrow>
                      (Inr (Response 200 (MessageBody message (BookingData (updateData b)))),
                       d1))))))"

definition updateBookingStatus :: "env \<Rightarrow> request \<Rightarrow> db \<Rightarrow> response \<times> db" where
  "updateBookingStatus e req d =
     (case updateBookingStatus_try e req d of
        (Inr res, d') \<Rightarrow> (res, d')
      | (Inl x, d') \<Rightarrow> (catch_block ''Failed to update booking status'' x, d'))"

section \<open>Middleware\<close>

text \<open>A middleware either answers the request itself or hands it on with \<open>next()\<close>.\<close>

datatype 'a step = Respond response | Next 'a

text \<open>\<open>Array.prototype.join\<close>\<close>

fun join :: "string \<Rightarrow> string list \<Rightarrow> string" where
  "join sep [] = []"
| "join sep [x] = x"
| "join sep (x # y # ys) = x @ sep @ join sep (y # ys)"

definition roleGuard :: "string list \<Rightarrow> request \<Rightarrow> unit step" where
  "roleGuard allowedRoles req =
     (case req_user req of
        None \<Rightarrow> Respond (Response 401 (ErrorBody ''Unauthorized'' ''Authentication required''))
      | Some u \<Rightarrow>
          if \<not> (role u \<in> set allowedRoles)
          then Respond (Response 403
                 (ErrorBody ''Forbidden''
                    (''Access denied. Required role: '' @ join '' or '' allowedRoles)))
          else Next ())"

definition isStudent :: "request \<Rightarrow> unit step" where
  "isStudent = roleGuard [''STUDENT'']"

definition isTutor :: "request \<Rightarrow> unit step" where
  "isTutor = roleGuard [''TUTOR'']"

definition isAdmin :: "request \<Rightarrow> unit step" where
  "isAdmin = roleGuard [''ADMIN'']"

definition isStudentOrTutor :: "request \<Rightarrow> unit step" where
  "isStudentOrTutor = roleGuard [''STUDENT'', ''TUTOR'']"

definition isTutorOrAdmin :: "request \<Rightarrow> unit step" where
  "isTutorOrAdmin = roleGuard [''TUTOR'', ''ADMIN'']"


section \<open>authController: register\<close>

definition user_findUnique_email :: "db \<Rightarrow> string \<Rightarrow> exn + user option" where
  "user_findUnique_email d m =
     (if connected d then Inr (find (\<lambda>u. u_email u = m) (users d)) else Inl OtherError)"

definition user_create :: "db \<Rightarrow> user \<Rightarrow> exn + db" where
  "user_create d u =
     (if connected d then Inr (d\<lparr>users := users d @ [u]\<rparr>) else Inl OtherError)"

record registerData =
  rg_email :: string
  rg_password :: string
  rg_name :: string
  rg_role :: Role

text \<open>\<open>z.string().email(m)\<close>; the pattern of an address is the library's and is a parameter.\<close>

definition email_string :: "(string \<Rightarrow> bool) \<Rightarrow> string \<Rightarrow> string \<Rightarrow> json \<Rightarrow> issue list" where
  "email_string accepts k m j =
     (case j of
        JStr s \<Rightarrow> (if accepts s then []
                   else [\<lparr>i_path = [k], i_code = invalid_string, i_message = Text m\<rparr>])
      | _ \<Rightarrow> [\<lparr>i_path = [k], i_code = invalid_type, i_message = ZodDefault\<rparr>])"

text \<open>\<open>z.string().min(n, m)\<close>\<close>

definition min_string :: "string \<Rightarrow> nat \<Rightarrow> string \<Rightarrow> json \<Rightarrow> issue list" where
  "min_string k n m j =
     (case j of
        JStr s \<Rightarrow> (if n \<le> length s then []
                   else [\<lparr>i_path = [k], i_code = too_small, i_message = Text m\<rparr>])
      | _ \<Rightarrow> [\<lparr>i_path = [k], i_code = invalid_type, i_message = ZodDefault\<rparr>])"

text \<open>\<open>z.enum(['STUDENT', 'TUTOR'], { errorMap })\<close>\<close>

definition role_issues :: "json \<Rightarrow> issue list" where
  "role_issues j =
     (case j of
        JStr s \<Rightarrow>
          (if s \<in> set [''STUDENT'', ''TUTOR''] then []
           else [\<lparr>i_path = [''role''], i_code = invalid_enum_value,
                  i_message = Text ''Role must be either STUDENT or TUTOR''\<rparr>])
      | _ \<Rightarrow> [\<lparr>i_path = [''role''], i_code = invalid_type,
                i_message = Text ''Role must be either STUDENT or TUTOR''\<rparr>])"

text \<open>The value of the column \<open>role\<close> that a name stands for.\<close>

definition role_named :: "string \<Rightarrow> Role" where
  "role_named s = (if s = ''ADMIN'' then ADMIN else if s = ''TUTOR'' then TUTOR else STUDENT)"

definition registerSchema :: "env \<Rightarrow> json \<Rightarrow> exn + registerData" where
  "registerSchema e j =
     (if \<not> is_object j then Inl (ZodError not_an_object [])
      else zod_result
             (email_string (is_email e) ''email'' ''Invalid email format'' (field j ''email'') @
              min_string ''password'' 8 ''Password must be at least 8 characters''
                (field j ''password'') @
              min_string ''name'' 2 ''Name must be at least 2 characters'' (field j ''name'') @
              role_issues (field j ''role''))
             \<lparr>rg_email = the_string (field j ''email''),
              rg_password = the_string (field j ''password''),
              rg_name = the_string (field j ''name''),
              rg_role = role_named (the_string (field j ''role''))\<rparr>)"

definition register_try :: "env \<Rightarrow> request \<Rightarrow> db \<Rightarrow> (exn + response) \<times> db" where
  "register_try e req d =
     (case registerSchema e (req_body req) of
        Inl x \<Rightarrow> (Inl x, d)
      | Inr validatedData \<Rightarrow>
        (case user_findUnique_email d (rg_email validatedData) of
           Inl x \<Rightarrow> (Inl x, d)
         | Inr (Some existingUser) \<Rightarrow>
             (Inr (Response 400
                (ErrorBody ''Bad Request'' ''User with this email already exists'')), d)
         | Inr None \<Rightarrow>
             (let hashedPassword = hashPassword e (rg_password validatedData);
                  u = \<lparr>u_id = new_id e,
                       u_email = rg_email validatedData,
                       u_password = hashedPassword,
                       u_name = rg_name validatedData,
                       u_role = rg_role validatedData,
                       u_status = user_status_default e\<rparr>
              in case user_create d u of
                   Inl x \<Rightarrow> (Inl x, d)
                 | Inr d1 \<Rightarrow>
                     (let token = generateToken e
                                    \<lparr>userId = u_id u, email = u_email u,
                                     role = role_name (u_role u)\<rparr>
                      in (Inr (Response 201
                            (MessageBody ''User registered successfully''
                               (UserData \<lparr>v_id = u_id u, v_email = u_email u,
                                          v_name = u_name u, v_role = u_role u,
                                          v_status = u_status u\<rparr> token))), d1)))))"

definition register :: "env \<Rightarrow> request \<Rightarrow> db \<Rightarrow> response \<times> db" where
  "register e req d =
     (case register_try e req d of
        (Inr res, d') \<Rightarrow> (res, d')
      | (Inl x, d') \<Rightarrow> (catch_block ''Failed to register user'' x, d'))"

section \<open>The second text of updateBookingStatus\<close>

text \<open>
  \<open>bookingController.ts\<close> holds the controller twice. The second text (from line 509 on)
  has no schema and no actions: the body names the status to set, one of \<open>CONFIRMED\<close>,
  \<open>COMPLETED\<close> and \<open>CANCELLED\<close>, and the handler looks at the requester only. Reading
  \<open>status\<close> off a body that is \<open>undefined\<close> or \<open>null\<close> throws, which its \<open>catch\<close> answers
  with 500.
\<close>

definition status_named :: "string \<Rightarrow> BookingStatus" where
  "status_named s =
     (if s = ''CONFIRMED'' then CONFIRMED
      else if s = ''COMPLETED'' then COMPLETED
      else if s = ''CANCELLED'' then CANCELLED
      else if s = ''REJECTED'' then REJECTED
      else PENDING)"

definition updateBookingStatus_by_status :: "request \<Rightarrow> db \<Rightarrow> response \<times> db" where
  "updateBookingStatus_by_status req d =
     (case req_user req of
        None \<Rightarrow> (unauthorized, d)
      | Some u \<Rightarrow>
          if req_body req = JUndefined \<or> req_body req = JNull
          then (Response 500
                  (ErrorBody ''Internal Server Error'' ''Failed to update booking status''), d)
          else
            (let status = field (req_body req) ''status''
             in if \<not> (status \<in> set [JStr ''CONFIRMED'', JStr ''COMPLETED'', JStr ''CANCELLED''])
                then (Response 400 (ErrorBody ''Bad Request'' ''Invalid status value''), d)
                else
                  (case booking_findUnique d (req_id req) of
                     Inl x \<Rightarrow>
                       (Response 500
                          (ErrorBody ''Internal Server Error''
                             ''Failed to update booking status''), d)
                   | Inr None \<Rightarrow>
                       (Response 404 (ErrorBody ''Not Found'' ''Booking not found''), d)
                   | Inr (Some b) \<Rightarrow>
                       if status = JStr ''CANCELLED'' \<and> b_studentId b \<noteq> userId u
                       then (Response 403
                               (ErrorBody ''Forbidden'' ''Only students can cancel bookings''), d)
                       else if status = JStr ''COMPLETED'' \<and> b_tutorId b \<noteq> userId u
                       then (Response 403
                               (ErrorBody ''Forbidden''
                                  ''Only tutors can mark bookings as completed''), d)
                       else
                         (case booking_update d (req_id req)
                                 (\<lambda>x. x\<lparr>b_status := status_named (the_string status)\<rparr>) of
                            Inl x \<Rightarrow>
                              (Response 500
                                 (ErrorBody ''Internal Server Error''
                                    ''Failed to update booking status''), d)
                          | Inr d1 \<Rightarrow>
                              (Response 200
                                 (MessageBody ''Booking status updated successfully''
                                    (BookingData
                                       (b\<lparr>b_status := status_named (the_string status)\<rparr>))),
                               d1)))))"

section \<open>The specification's vocabulary\<close>

text \<open>An acceptable rating, in the specification's words: an integer from 1 to 5.\<close>

definition valid_rating :: "json \<Rightarrow> bool" where
  "valid_rating j = (j \<in> {JNum 1, JNum 2, JNum 3, JNum 4, JNum 5})"






section \<open>A small database to run the handlers on\<close>

definition env0 :: env where
  "env0 = \<lparr>is_uuid = (\<lambda>s. s \<noteq> []), is_email = (\<lambda>s. CHR ''@'' \<in> set s),
           is_datetime = (\<lambda>s. s \<noteq> []), date_of = (\<lambda>s. int (length s)),
           now = 1000, new_id = ''n1'', user_status_default = ACTIVE,
           hashPassword = (\<lambda>s. CHR ''#'' # s), generateToken = (\<lambda>p. userId p)\<rparr>"

definition db0 :: db where
  "db0 = \<lparr>connected = True,
          users =
            [\<lparr>u_id = ''s1'', u_email = ''s1@x'', u_password = ''#pw'', u_name = ''Sam'',
              u_role = STUDENT, u_status = ACTIVE\<rparr>,
             \<lparr>u_id = ''s2'', u_email = ''s2@x'', u_password = ''#pw'', u_name = ''Sue'',
              u_role = STUDENT, u_status = ACTIVE\<rparr>,
             \<lparr>u_id = ''t1'', u_email = ''t1@x'', u_password = ''#pw'', u_name = ''Tom'',
              u_role = TUTOR, u_status = ACTIVE\<rparr>,
             \<lparr>u_id = ''t2'', u_email = ''t2@x'', u_password = ''#pw'', u_name = ''Tia'',
              u_role = TUTOR, u_status = BANNED\<rparr>,
             \<lparr>u_id = ''a1'', u_email = ''a1@x'', u_password = ''#pw'', u_name = ''Ada'',
              u_role = ADMIN, u_status = ACTIVE\<rparr>],
          profiles =
            [\<lparr>p_userId = ''t1'', p_rating = Num 4, p_reviewCount = 1\<rparr>,
             \<lparr>p_userId = ''t2'', p_rating = Num 0, p_reviewCount = 0\<rparr>],
          bookings =
            [\<lparr>b_id = ''b1'', b_studentId = ''s1'', b_tutorId = ''t1'', b_dateTime = 2000,
              b_duration = 60, b_subject = None, b_notes = None, b_status = PENDING\<rparr>,
             \<lparr>b_id = ''b2'', b_studentId = ''s1'', b_tutorId = ''t1'', b_dateTime = 500,
              b_duration = 60, b_subject = None, b_notes = None, b_status = CONFIRMED\<rparr>,
             \<lparr>b_id = ''b3'', b_studentId = ''s1'', b_tutorId = ''t1'', b_dateTime = 100,
              b_duration = 60, b_subject = None, b_notes = None, b_status = COMPLETED\<rparr>,
             \<lparr>b_id = ''b4'', b_studentId = ''s2'', b_tutorId = ''t1'', b_dateTime = 100,
              b_duration = 60, b_subject = None, b_notes = None, b_status = COMPLETED\<rparr>,
             \<lparr>b_id = ''b5'', b_studentId = ''s1'', b_tutorId = ''t1'', b_dateTime = 5000,
              b_duration = 60, b_subject = None, b_notes = None, b_status = CONFIRMED\<rparr>],
          reviews =
            [\<lparr>r_id = ''r1'', r_bookingId = ''b4'', r_studentId = ''s2'', r_tutorId = ''t1'',
              r_rating = 4, r_comment = None\<rparr>]\<rparr>"

definition student1 :: jwtPayload where
  "student1 = \<lparr>userId = ''s1'', email = ''s1@x'', role = ''STUDENT''\<rparr>"

definition student2 :: jwtPayload where
  "student2 = \<lparr>userId = ''s2'', email = ''s2@x'', role = ''STUDENT''\<rparr>"

definition tutor1 :: jwtPayload where
  "tutor1 = \<lparr>userId = ''t1'', email = ''t1@x'', role = ''TUTOR''\<rparr>"

definition admin1 :: jwtPayload where
  "admin1 = \<lparr>userId = ''a1'', email = ''a1@x'', role = ''ADMIN''\<rparr>"

text \<open>A review of the booking \<open>bid\<close> with the rating \<open>n\<close>, sent by \<open>u\<close>.\<close>

definition review_request :: "jwtPayload \<Rightarrow> string \<Rightarrow> rat \<Rightarrow> request" where
  "review_request u bid n =
     \<lparr>req_user = Some u, req_id = [],
      req_body = JObj [(''bookingId'', JStr bid), (''rating'', JNum n)]\<rparr>"

text \<open>The action \<open>a\<close> on the booking \<open>bid\<close>, sent by \<open>u\<close>.\<close>

definition status_request :: "jwtPayload \<Rightarrow> string \<Rightarrow> string \<Rightarrow> request" where
  "status_request u bid a =
     \<lparr>req_user = Some u, req_id = bid, req_body = JObj [(''action'', JStr a)]\<rparr>"

text \<open>A registration with the role member \<open>r\<close>.\<close>

definition register_request :: "string \<Rightarrow> json \<Rightarrow> request" where
  "register_request mail r =
     \<lparr>req_user = None, req_id = [],
      req_body = JObj [(''email'', JStr mail), (''password'', JStr ''12345678''),
                       (''name'', JStr ''Nora''), (''role'', r)]\<rparr>"

text \<open>A booking of the tutor \<open>t\<close>, sent by \<open>u\<close>.\<close>

definition booking_request :: "jwtPayload \<Rightarrow> string \<Rightarrow> request" where
  "booking_request u t =
     \<lparr>req_user = Some u, req_id = [],
      req_body = JObj [(''tutorId'', JStr t), (''dateTime'', JStr ''d'')]\<rparr>"



section \<open>Auxiliary facts\<close>

lemma zod_result_Inr: "zod_result is v = Inr w \<longleftrightarrow> is = [] \<and> w = v"
  by (cases "is") auto

lemma zod_result_cases:
  "(is = [] \<and> zod_result is v = Inr v) \<or> (\<exists>i r. is = i # r \<and> zod_result is v = Inl (ZodError i r))"
  by (cases "is") auto



section \<open>Validation of a review's rating\<close>

lemma is_integer_range:
  assumes "is_integer r" "1 \<le> r" "r \<le> 5"
  shows "r \<in> {1, 2, 3, 4, 5}"
proof -
  define n where "n = \<lfloor>r\<rfloor>"
  from assms(1) have "of_int \<lfloor>r\<rfloor> = r" unfolding is_integer_def .
  then have r: "r = of_int n" unfolding n_def by (rule sym)
  have "1 \<le> n" "n \<le> 5" using assms(2,3) unfolding n_def by linarith+
  then have "n = 1 \<or> n = 2 \<or> n = 3 \<or> n = 4 \<or> n = 5" by arith
  then show ?thesis unfolding r by auto
qed

lemma rating_issues_Nil: "rating_issues j = [] \<longleftrightarrow> valid_rating j"
proof (cases j)
  case (JNum r)
  show ?thesis
  proof
    assume "rating_issues j = []"
    then have "is_integer r \<and> 1 \<le> r \<and> r \<le> 5"
      using JNum by (auto simp: rating_issues_def split: if_splits)
    then have "r \<in> {1, 2, 3, 4, 5}" using is_integer_range by blast
    then show "valid_rating j" using JNum by (auto simp: valid_rating_def)
  next
    assume "valid_rating j"
    then have "r \<in> {1, 2, 3, 4, 5}" using JNum by (auto simp: valid_rating_def)
    then show "rating_issues j = []" using JNum
      by (auto simp: rating_issues_def is_integer_def)
  qed
qed (auto simp: rating_issues_def valid_rating_def)

lemma createReviewSchema_invalid_rating:
  assumes "\<not> valid_rating (field j ''rating'')"
  shows "\<exists>i is. createReviewSchema e j = Inl (ZodError i is)"
proof (cases "is_object j")
  case False
  then show ?thesis by (simp add: createReviewSchema_def)
next
  case True
  from assms have "rating_issues (field j ''rating'') \<noteq> []" by (simp add: rating_issues_Nil)
  then obtain i r where
    "uuid_string (is_uuid e) ''bookingId'' ''Invalid booking ID'' (field j ''bookingId'') @
       rating_issues (field j ''rating'') @
       optional_string ''comment'' (field j ''comment'') = i # r"
    by (metis append_is_Nil_conv list.exhaust)
  then show ?thesis using True by (simp add: createReviewSchema_def)
qed

lemma createReviewSchema_rating:
  assumes "createReviewSchema e j = Inr v"
  shows "1 \<le> cr_rating v \<and> cr_rating v \<le> 5"
proof -
  have o: "is_object j" using assms by (auto simp: createReviewSchema_def split: if_splits)
  then have "rating_issues (field j ''rating'') = []"
    and v: "cr_rating v = rating_of (field j ''rating'')"
    using assms by (auto simp: createReviewSchema_def zod_result_Inr)
  then have "valid_rating (field j ''rating'')" by (simp add: rating_issues_Nil)
  then show ?thesis unfolding v by (auto simp: valid_rating_def rating_of_def)
qed

lemma createReview_unauthenticated:
  assumes "req_user req = None"
  shows "createReview e req d = (unauthorized, d)"
  using assms by (simp add: createReview_def createReview_try_def)

lemma createReview_invalid:
  assumes "req_user req = Some u"
    and "createReviewSchema e (req_body req) = Inl (ZodError i is)"
  shows "createReview e req d =
           (Response 400 (ValidationBody ''Validation Error'' (i_message i) (i # is)), d)"
  using assms by (simp add: createReview_def createReview_try_def)

text \<open>
  C6. Whenever the body's \<open>rating\<close> is anything but an integer from 1 to 5 (a number below
  1, above 5 or fractional, a value of another type, or no member at all), \<open>createReview\<close>
  leaves the database as it was given: no review is created. The handler runs behind the
  authentication middleware; with \<open>req.user\<close> set, its answer to such a body is 400 with the
  error \<open>Validation Error\<close> and the issues found.
\<close>

theorem createReview_rejects_rating:
  assumes "\<not> valid_rating (field (req_body req) ''rating'')"
  shows "snd (createReview e req d) = d \<and>
         (\<forall>u. req_user req = Some u \<longrightarrow>
            (\<exists>m is. createReview e req d =
               (Response 400 (ValidationBody ''Validation Error'' m is), d)))"
proof -
  obtain i r where x: "createReviewSchema e (req_body req) = Inl (ZodError i r)"
    using createReviewSchema_invalid_rating [OF assms] by blast
  show ?thesis
  proof (cases "req_user req")
    case None
    then show ?thesis by (simp add: createReview_unauthenticated)
  next
    case (Some u)
    then show ?thesis by (simp add: createReview_invalid [OF Some x])
  qed
qed

lemmas review_eval =
  createReview_def createReview_try_def createReviewSchema_def review_request_def
  env0_def db0_def student1_def student2_def tutor1_def is_object_def uuid_string_def
  rating_issues_def is_integer_def optional_string_def the_string_def rating_of_def
  string_opt_def booking_findUnique_def booking_review_def review_create_def
  review_findMany_def tutorProfile_update_def js_div_def Let_def

theorem createReview_rejects_rating_witness:
  "req_user (review_request student1 ''b3'' 6) = Some student1 \<and>
   \<not> valid_rating (field (req_body (review_request student1 ''b3'' 6)) ''rating'') \<and>
   createReview env0 (review_request student1 ''b3'' 6) db0 =
     (Response 400
        (ValidationBody ''Validation Error'' (Text ''Rating must be at most 5'')
           [\<lparr>i_path = [''rating''], i_code = too_big,
             i_message = Text ''Rating must be at most 5''\<rparr>]), db0) \<and>
   res_status (fst (createReview env0 (review_request student1 ''b3'' (1 / 2)) db0)) = 400"
  using createReview_rejects_rating [of "review_request student1 ''b3'' 6" env0 db0]
    createReview_rejects_rating [of "review_request student1 ''b3'' (1 / 2)" env0 db0]
  by (simp add: review_eval valid_rating_def)

section \<open>The guards of createReview\<close>

lemma createReview_valid:
  assumes "req_user req = Some u"
    and "createReviewSchema e (req_body req) = Inr v"
    and "connected d"
  shows "createReview e req d =
    (case find (\<lambda>b. b_id b = cr_bookingId v) (bookings d) of
       None \<Rightarrow> (Response 404 (ErrorBody ''Not Found'' ''Booking not found''), d)
     | Some b \<Rightarrow>
         if b_studentId b \<noteq> userId u
         then (Response 403 (ErrorBody ''Forbidden'' ''You can only review your own bookings''), d)
         else if b_status b \<noteq> COMPLETED
         then (Response 400 (ErrorBody ''Bad Request'' ''You can only review completed bookings''), d)
         else if booking_review d b \<noteq> None
         then (Response 400 (ErrorBody ''Bad Request'' ''You have already reviewed this booking''), d)
         else
           (let r = \<lparr>r_id = new_id e, r_bookingId = cr_bookingId v, r_studentId = userId u,
                     r_tutorId = b_tutorId b, r_rating = cr_rating v, r_comment = cr_comment v\<rparr>;
                d1 = d\<lparr>reviews := reviews d @ [r]\<rparr>;
                rs = filter (\<lambda>x. r_tutorId x = b_tutorId b) (reviews d1)
            in if find (\<lambda>p. p_userId p = b_tutorId b) (profiles d) = None
               then (Response 500 (ErrorBody ''Internal Server Error'' ''Failed to create review''), d1)
               else (Response 201 (MessageBody ''Review created successfully'' (ReviewData r)),
                     d1\<lparr>profiles :=
                          map (\<lambda>p. if p_userId p = b_tutorId b
                                    then p\<lparr>p_rating := js_div (of_int (sum_list (map r_rating rs)))
                                                           (of_nat (length rs)),
                                           p_reviewCount := length rs\<rparr>
                                    else p) (profiles d)\<rparr>)))"
  using assms
  by (simp add: createReview_def createReview_try_def booking_findUnique_def
      review_create_def review_findMany_def tutorProfile_update_def Let_def
      split: option.split cong: if_cong)

text \<open>
  C2. For an authenticated request whose body passes the schema, on a reachable database:
  \<open>createReview\<close> adds a review exactly when the booking exists, is the requester's own
  (as student), is \<open>COMPLETED\<close> and has no review yet. The checks run in this order and the
  first that fails answers: 404 for a missing booking, 403 for someone else's booking,
  400 for a booking that is not completed, 400 for one already reviewed; each of these
  leaves the whole database, so the reviews and the tutor's profile, as it was.
\<close>

theorem createReview_guards:
  assumes "req_user req = Some u"
    and "createReviewSchema e (req_body req) = Inr v"
    and "connected d"
  shows "(reviews (snd (createReview e req d)) \<noteq> reviews d \<longleftrightarrow>
            (\<exists>b. find (\<lambda>b. b_id b = cr_bookingId v) (bookings d) = Some b \<and>
                 b_studentId b = userId u \<and> b_status b = COMPLETED \<and>
                 booking_review d b = None)) \<and>
         (find (\<lambda>b. b_id b = cr_bookingId v) (bookings d) = None \<longrightarrow>
            res_status (fst (createReview e req d)) = 404 \<and> snd (createReview e req d) = d) \<and>
         (\<forall>b. find (\<lambda>b. b_id b = cr_bookingId v) (bookings d) = Some b \<longrightarrow>
            (b_studentId b \<noteq> userId u \<longrightarrow>
               res_status (fst (createReview e req d)) = 403 \<and> snd (createReview e req d) = d) \<and>
            (b_studentId b = userId u \<and> b_status b \<noteq> COMPLETED \<longrightarrow>
               res_status (fst (createReview e req d)) = 400 \<and> snd (createReview e req d) = d) \<and>
            (b_studentId b = userId u \<and> b_status b = COMPLETED \<and> booking_review d b \<noteq> None \<longrightarrow>
               res_status (fst (createReview e req d)) = 400 \<and> snd (createReview e req d) = d))"
  unfolding createReview_valid [OF assms]
  by (auto simp: Let_def split: option.split)

lemma review_request_valid:
  "bid \<noteq> [] \<Longrightarrow> createReviewSchema env0 (req_body (review_request u bid 5)) =
     Inr \<lparr>cr_bookingId = bid, cr_rating = 5, cr_comment = None\<rparr>"
  by (simp add: review_eval)

theorem createReview_guards_witness:
  "req_user (review_request student1 ''b3'' 5) = Some student1 \<and>
   createReviewSchema env0 (req_body (review_request student1 ''b3'' 5)) =
     Inr \<lparr>cr_bookingId = ''b3'', cr_rating = 5, cr_comment = None\<rparr> \<and>
   connected db0 \<and>
   reviews (snd (createReview env0 (review_request student1 ''b3'' 5) db0)) \<noteq> reviews db0 \<and>
   createReview env0 (review_request student1 ''zz'' 5) db0 =
     (Response 404 (ErrorBody ''Not Found'' ''Booking not found''), db0) \<and>
   createReview env0 (review_request student1 ''b4'' 5) db0 =
     (Response 403 (ErrorBody ''Forbidden'' ''You can only review your own bookings''), db0) \<and>
   createReview env0 (review_request student1 ''b2'' 5) db0 =
     (Response 400 (ErrorBody ''Bad Request'' ''You can only review completed bookings''), db0) \<and>
   createReview env0 (review_request student2 ''b4'' 5) db0 =
     (Response 400 (ErrorBody ''Bad Request'' ''You have already reviewed this booking''), db0)"
  using createReview_guards [of "review_request student1 ''b3'' 5" student1 env0
      "\<lparr>cr_bookingId = ''b3'', cr_rating = 5, cr_comment = None\<rparr>" db0]
  by (simp add: review_eval)

section \<open>The tutor's average after a review\<close>






text \<open>Every stored rating stays within 1 to 5 when \<open>createReview\<close> is what adds reviews.\<close>

lemma createReview_keeps_ratings:
  assumes "\<forall>r \<in> set (reviews d). 1 \<le> r_rating r \<and> r_rating r \<le> 5"
  shows "\<forall>r \<in> set (reviews (snd (createReview e req d))). 1 \<le> r_rating r \<and> r_rating r \<le> 5"
proof (cases "\<exists>u v. req_user req = Some u \<and> createReviewSchema e (req_body req) = Inr v \<and>
                     connected d")
  case True
  then obtain u v where u: "req_user req = Some u"
    and v: "createReviewSchema e (req_body req) = Inr v" and c: "connected d" by blast
  show ?thesis
    unfolding createReview_valid [OF u v c]
    using assms createReviewSchema_rating [OF v]
    by (auto simp: Let_def split: option.split)
next
  case False
  have "snd (createReview e req d) = d"
  proof (cases "req_user req")
    case None
    then show ?thesis by (simp add: createReview_def createReview_try_def)
  next
    case (Some u)
    show ?thesis
    proof (cases "createReviewSchema e (req_body req)")
      case (Inl x)
      then show ?thesis using Some by (simp add: createReview_def createReview_try_def)
    next
      case (Inr v)
      then have "\<not> connected d" using False Some by simp
      then show ?thesis using Some Inr
        by (simp add: createReview_def createReview_try_def booking_findUnique_def)
    qed
  qed
  then show ?thesis using assms by simp
qed

section \<open>getTutorReviews\<close>









text \<open>A stored rating outside 1 to 5 would add a member holding \<open>NaN\<close>.\<close>

lemma ratingDistribution_out_of_range:
  "ratingDistribution [\<lparr>r_id = ''r'', r_bookingId = ''b'', r_studentId = ''s'',
      r_tutorId = ''t'', r_rating = 6, r_comment = None\<rparr>] =
    [(1, Num 0), (2, Num 0), (3, Num 0), (4, Num 0), (5, Num 0), (6, NaN)]"
  by (simp add: ratingDistribution_def distribution_incr_def)

section \<open>The booking status transitions\<close>

lemma updateBookingStatusSchema_Inr:
  assumes "updateBookingStatusSchema j = Inr v"
  shows "field j ''action'' = JStr (us_action v)"
    and "us_action v \<in> {''approve'', ''reject'', ''cancel'', ''complete''}"
proof -
  have o: "is_object j" using assms by (auto simp: updateBookingStatusSchema_def split: if_splits)
  then have a: "action_issues (field j ''action'') = []"
    and v: "us_action v = the_string (field j ''action'')"
    using assms by (auto simp: updateBookingStatusSchema_def zod_result_Inr)
  from a obtain s where s: "field j ''action'' = JStr s"
    by (cases "field j ''action''") (auto simp: action_issues_def)
  with v show "field j ''action'' = JStr (us_action v)" by (simp add: the_string_def)
  from a s v show "us_action v \<in> {''approve'', ''reject'', ''cancel'', ''complete''}"
    by (auto simp: action_issues_def the_string_def split: if_splits)
qed

lemma updateBookingStatusSchema_cases:
  "(\<exists>v. updateBookingStatusSchema j = Inr v) \<or>
   (\<exists>i is. updateBookingStatusSchema j = Inl (ZodError i is))"
proof (cases "is_object j")
  case True
  then show ?thesis
    using zod_result_cases
      [of "action_issues (field j ''action'') @ optional_string ''reason'' (field j ''reason'')"
          "\<lparr>us_action = the_string (field j ''action''),
            us_reason = string_opt (field j ''reason'')\<rparr>"]
    by (auto simp: updateBookingStatusSchema_def)
qed (simp add: updateBookingStatusSchema_def)

lemma updateBookingStatusSchema_not_string:
  assumes "\<forall>a. field j ''action'' \<noteq> JStr a"
  shows "\<exists>i is. updateBookingStatusSchema j = Inl (ZodError i is)"
  using updateBookingStatusSchema_cases [of j] updateBookingStatusSchema_Inr(1) assms by blast

lemma updateBookingStatus_invalid:
  assumes "req_user req = Some u"
    and "updateBookingStatusSchema (req_body req) = Inl (ZodError i is)"
  shows "updateBookingStatus e req d =
           (Response 400 (ValidationBody ''Validation Error'' (i_message i) (i # is)), d)"
  using assms by (simp add: updateBookingStatus_def updateBookingStatus_try_def)

lemma updateBookingStatus_found:
  assumes "req_user req = Some u"
    and "updateBookingStatusSchema (req_body req) = Inr v"
    and "connected d"
    and "find (\<lambda>b. b_id b = req_id req) (bookings d) = Some b"
  shows "updateBookingStatus e req d =
    (case action_switch e u v b of
       Inl res \<Rightarrow> (res, d)
     | Inr (m, f) \<Rightarrow>
         (Response 200 (MessageBody m (BookingData (f b))),
          d\<lparr>bookings := map (\<lambda>x. if b_id x = req_id req then f x else x) (bookings d)\<rparr>))"
  using assms
  by (simp add: updateBookingStatus_def updateBookingStatus_try_def booking_findUnique_def
      booking_update_def split: sum.split prod.split)





lemma find_map_update:
  assumes "\<forall>x. b_id (f x) = b_id x"
  shows "find (\<lambda>x. b_id x = i) (map (\<lambda>x. if b_id x = i then f x else x) xs) =
         map_option f (find (\<lambda>x. b_id x = i) xs)"
  using assms by (induction xs) auto

lemmas status_eval =
  updateBookingStatus_def updateBookingStatus_try_def updateBookingStatusSchema_def
  action_switch_def action_issues_def status_request_def is_object_def optional_string_def
  the_string_def string_opt_def booking_findUnique_def booking_update_def
  env0_def db0_def student1_def student2_def tutor1_def admin1_def




section \<open>Completing a booking\<close>

text \<open>
  C4. The booking's tutor asks to complete a \<open>CONFIRMED\<close> booking (database reachable). The
  answer is 200 only when the clock is at or after the booking's \<open>dateTime\<close>; while the
  clock is before it, the answer is 400 and the database is unchanged. From the scheduled
  time on, a body without an ill-typed \<open>reason\<close> is answered with 200 and the booking is
  \<open>COMPLETED\<close>.
\<close>

theorem updateBookingStatus_complete:
  assumes "req_user req = Some u"
    and "connected d"
    and "find (\<lambda>b. b_id b = req_id req) (bookings d) = Some b"
    and "userId u = b_tutorId b"
    and "b_status b = CONFIRMED"
    and "field (req_body req) ''action'' = JStr ''complete''"
  shows "(res_status (fst (updateBookingStatus e req d)) = 200 \<longrightarrow> b_dateTime b \<le> now e) \<and>
         (now e < b_dateTime b \<longrightarrow>
            res_status (fst (updateBookingStatus e req d)) = 400 \<and>
            snd (updateBookingStatus e req d) = d) \<and>
         (b_dateTime b \<le> now e \<and> optional_string ''reason'' (field (req_body req) ''reason'') = [] \<longrightarrow>
            res_status (fst (updateBookingStatus e req d)) = 200 \<and>
            map_option b_status
              (find (\<lambda>b. b_id b = req_id req)
                 (bookings (snd (updateBookingStatus e req d)))) = Some COMPLETED)"
proof (cases "updateBookingStatusSchema (req_body req)")
  case (Inl x)
  then obtain i r where x: "updateBookingStatusSchema (req_body req) = Inl (ZodError i r)"
    using updateBookingStatusSchema_cases [of "req_body req"] by auto
  have "is_object (req_body req)" using assms(6) by (cases "req_body req") (auto simp: is_object_def)
  then have "optional_string ''reason'' (field (req_body req) ''reason'') \<noteq> []"
    using x assms(6) by (auto simp: updateBookingStatusSchema_def action_issues_def)
  then show ?thesis
    unfolding updateBookingStatus_invalid [OF assms(1) x] by simp
next
  case (Inr v)
  have a: "us_action v = ''complete''"
    using updateBookingStatusSchema_Inr(1) [OF Inr] assms(6) by simp
  note eq = updateBookingStatus_found [OF assms(1) Inr assms(2,3)]
  have idf: "\<forall>x. b_id (x\<lparr>b_status := COMPLETED\<rparr>) = b_id x" by simp
  show ?thesis
    unfolding eq using assms(3-5) a
    by (simp add: action_switch_def find_map_update [OF idf])
qed

theorem updateBookingStatus_complete_witness:
  "req_user (status_request tutor1 ''b5'' ''complete'') = Some tutor1 \<and> connected db0 \<and>
   find (\<lambda>b. b_id b = req_id (status_request tutor1 ''b5'' ''complete'')) (bookings db0) =
     Some \<lparr>b_id = ''b5'', b_studentId = ''s1'', b_tutorId = ''t1'', b_dateTime = 5000,
           b_duration = 60, b_subject = None, b_notes = None, b_status = CONFIRMED\<rparr> \<and>
   field (req_body (status_request tutor1 ''b5'' ''complete'')) ''action'' = JStr ''complete'' \<and>
   now env0 < 5000 \<and>
   updateBookingStatus env0 (status_request tutor1 ''b5'' ''complete'') db0 =
     (Response 400 (ErrorBody ''Bad Request''
        ''Cannot mark booking as completed before the scheduled time''), db0) \<and>
   500 \<le> now env0 \<and>
   res_status (fst (updateBookingStatus env0 (status_request tutor1 ''b2'' ''complete'') db0)) = 200 \<and>
   map_option b_status
     (find (\<lambda>b. b_id b = ''b2'')
        (bookings (snd (updateBookingStatus env0 (status_request tutor1 ''b2'' ''complete'') db0)))) =
     Some COMPLETED"
  using updateBookingStatus_complete
      [of "status_request tutor1 ''b5'' ''complete''" tutor1 db0
          "\<lparr>b_id = ''b5'', b_studentId = ''s1'', b_tutorId = ''t1'', b_dateTime = 5000,
            b_duration = 60, b_subject = None, b_notes = None, b_status = CONFIRMED\<rparr>" env0]
    updateBookingStatus_complete
      [of "status_request tutor1 ''b2'' ''complete''" tutor1 db0
          "\<lparr>b_id = ''b2'', b_studentId = ''s1'', b_tutorId = ''t1'', b_dateTime = 500,
            b_duration = 60, b_subject = None, b_notes = None, b_status = CONFIRMED\<rparr>" env0]
  by (simp add: status_eval)

section \<open>Reading one booking\<close>

text \<open>
  C7. For an authenticated request on an existing booking (database reachable): a
  requester who is not an admin and is neither the booking's student nor its tutor gets
  403 with the error body alone; the booking's student, its tutor and any admin get 200
  with the booking.
\<close>

theorem getBookingById_access:
  assumes "req_user req = Some u"
    and "connected d"
    and "find (\<lambda>b. b_id b = req_id req) (bookings d) = Some b"
  shows "(role u \<noteq> ''ADMIN'' \<and> userId u \<noteq> b_studentId b \<and> userId u \<noteq> b_tutorId b \<longrightarrow>
            getBookingById req d =
              Response 403 (ErrorBody ''Forbidden'' ''You do not have access to this booking'')) \<and>
         (role u = ''ADMIN'' \<or> userId u = b_studentId b \<or> userId u = b_tutorId b \<longrightarrow>
            getBookingById req d = Response 200 (DataBody (BookingData b)))"
  using assms by (auto simp: getBookingById_def booking_findUnique_def)

theorem getBookingById_access_witness:
  "req_user \<lparr>req_user = Some student2, req_id = ''b1'', req_body = JUndefined\<rparr> = Some student2 \<and>
   connected db0 \<and>
   find (\<lambda>b. b_id b = ''b1'') (bookings db0) =
     Some \<lparr>b_id = ''b1'', b_studentId = ''s1'', b_tutorId = ''t1'', b_dateTime = 2000,
           b_duration = 60, b_subject = None, b_notes = None, b_status = PENDING\<rparr> \<and>
   getBookingById \<lparr>req_user = Some student2, req_id = ''b1'', req_body = JUndefined\<rparr> db0 =
     Response 403 (ErrorBody ''Forbidden'' ''You do not have access to this booking'') \<and>
   res_status (getBookingById \<lparr>req_user = Some student1, req_id = ''b1'', req_body = JUndefined\<rparr> db0) = 200 \<and>
   res_status (getBookingById \<lparr>req_user = Some tutor1, req_id = ''b1'', req_body = JUndefined\<rparr> db0) = 200 \<and>
   res_status (getBookingById \<lparr>req_user = Some admin1, req_id = ''b1'', req_body = JUndefined\<rparr> db0) = 200"
  using getBookingById_access
      [of "\<lparr>req_user = Some student2, req_id = ''b1'', req_body = JUndefined\<rparr>" student2 db0
          "\<lparr>b_id = ''b1'', b_studentId = ''s1'', b_tutorId = ''t1'', b_dateTime = 2000,
            b_duration = 60, b_subject = None, b_notes = None, b_status = PENDING\<rparr>"]
    getBookingById_access
      [of "\<lparr>req_user = Some admin1, req_id = ''b1'', req_body = JUndefined\<rparr>" admin1 db0
          "\<lparr>b_id = ''b1'', b_studentId = ''s1'', b_tutorId = ''t1'', b_dateTime = 2000,
            b_duration = 60, b_subject = None, b_notes = None, b_status = PENDING\<rparr>"]
  by (simp add: getBookingById_def booking_findUnique_def db0_def student1_def student2_def
      tutor1_def admin1_def)

section \<open>The status of a failure\<close>













section \<open>The roles a registration may ask for\<close>

lemmas register_eval =
  register_def register_try_def registerSchema_def register_request_def is_object_def
  email_string_def min_string_def role_issues_def role_named_def the_string_def
  user_findUnique_email_def user_create_def env0_def db0_def Let_def

lemma registerSchema_Inr:
  assumes "registerSchema e j = Inr v"
  shows "field j ''role'' \<in> {JStr ''STUDENT'', JStr ''TUTOR''}"
    and "rg_role v \<in> {STUDENT, TUTOR}"
proof -
  have o: "is_object j" using assms by (auto simp: registerSchema_def split: if_splits)
  then have a: "role_issues (field j ''role'') = []"
    and v: "rg_role v = role_named (the_string (field j ''role''))"
    using assms by (auto simp: registerSchema_def zod_result_Inr)
  from a obtain s where s: "field j ''role'' = JStr s"
    by (cases "field j ''role''") (auto simp: role_issues_def)
  with a have "s = ''STUDENT'' \<or> s = ''TUTOR''"
    by (auto simp: role_issues_def split: if_splits)
  then show "field j ''role'' \<in> {JStr ''STUDENT'', JStr ''TUTOR''}" using s by auto
  then show  "rg_role v \<in> {STUDENT, TUTOR}" unfolding v
    by (auto simp: role_named_def the_string_def)
qed

lemma registerSchema_cases:
  "(\<exists>v. registerSchema e j = Inr v) \<or> (\<exists>i is. registerSchema e j = Inl (ZodError i is))"
proof (cases "is_object j")
  case True
  then show ?thesis
    using zod_result_cases
      [of "email_string (is_email e) ''email'' ''Invalid email format'' (field j ''email'') @
              min_string ''password'' 8 ''Password must be at least 8 characters''
                (field j ''password'') @
              min_string ''name'' 2 ''Name must be at least 2 characters'' (field j ''name'') @
              role_issues (field j ''role'')"
          "\<lparr>rg_email = the_string (field j ''email''),
              rg_password = the_string (field j ''password''),
              rg_name = the_string (field j ''name''),
              rg_role = role_named (the_string (field j ''role''))\<rparr>"]
    by (auto simp: registerSchema_def)
qed (simp add: registerSchema_def)

lemma register_users:
  "users (snd (register e req d)) = users d \<or>
   (\<exists>v. registerSchema e (req_body req) = Inr v \<and> res_status (fst (register e req d)) = 201 \<and>
        users (snd (register e req d)) =
          users d @ [\<lparr>u_id = new_id e, u_email = rg_email v,
                      u_password = hashPassword e (rg_password v), u_name = rg_name v,
                      u_role = rg_role v, u_status = user_status_default e\<rparr>])"
  by (auto simp: register_def register_try_def user_findUnique_email_def user_create_def
      Let_def split: sum.split option.split)

text \<open>
  C9. Whatever else the body holds, a \<open>role\<close> member other than the string \<open>STUDENT\<close> or the
  string \<open>TUTOR\<close> (so \<open>ADMIN\<close>, any other string, a value of another type, or no member)
  is answered with 400 and the error \<open>Validation Error\<close>, and the database is unchanged. A
  201 answer implies one of the two roles, and any user row that \<open>register\<close> adds has the
  role \<open>STUDENT\<close> or \<open>TUTOR\<close>: it never creates an \<open>ADMIN\<close>.
\<close>

theorem register_roles:
  "(field (req_body req) ''role'' \<notin> {JStr ''STUDENT'', JStr ''TUTOR''} \<longrightarrow>
      (\<exists>m is. register e req d = (Response 400 (ValidationBody ''Validation Error'' m is), d))) \<and>
   (res_status (fst (register e req d)) = 201 \<longrightarrow>
      field (req_body req) ''role'' \<in> {JStr ''STUDENT'', JStr ''TUTOR''}) \<and>
   (\<forall>u \<in> set (users (snd (register e req d))). u \<notin> set (users d) \<longrightarrow>
      u_role u = STUDENT \<or> u_role u = TUTOR)"
proof (intro conjI impI)
  assume bad: "field (req_body req) ''role'' \<notin> {JStr ''STUDENT'', JStr ''TUTOR''}"
  then obtain i r where "registerSchema e (req_body req) = Inl (ZodError i r)"
    using registerSchema_cases [of e "req_body req"] registerSchema_Inr(1) by blast
  then show "\<exists>m is. register e req d = (Response 400 (ValidationBody ''Validation Error'' m is), d)"
    by (simp add: register_def register_try_def)
next
  assume ok: "res_status (fst (register e req d)) = 201"
  show "field (req_body req) ''role'' \<in> {JStr ''STUDENT'', JStr ''TUTOR''}"
  proof (rule ccontr)
    assume "field (req_body req) ''role'' \<notin> {JStr ''STUDENT'', JStr ''TUTOR''}"
    then obtain i r where "registerSchema e (req_body req) = Inl (ZodError i r)"
      using registerSchema_cases [of e "req_body req"] registerSchema_Inr(1) by blast
    then show False using ok by (simp add: register_def register_try_def)
  qed
next
  from register_users [of e req d]
  show "\<forall>u \<in> set (users (snd (register e req d))). u \<notin> set (users d) \<longrightarrow>
      u_role u = STUDENT \<or> u_role u = TUTOR"
  proof
    assume "users (snd (register e req d)) = users d"
    then show ?thesis by simp
  next
    assume "\<exists>v. registerSchema e (req_body req) = Inr v \<and>
        res_status (fst (register e req d)) = 201 \<and>
        users (snd (register e req d)) =
          users d @ [\<lparr>u_id = new_id e, u_email = rg_email v,
                      u_password = hashPassword e (rg_password v), u_name = rg_name v,
                      u_role = rg_role v, u_status = user_status_default e\<rparr>]"
    then obtain v where v: "registerSchema e (req_body req) = Inr v"
      and us: "users (snd (register e req d)) =
          users d @ [\<lparr>u_id = new_id e, u_email = rg_email v,
                      u_password = hashPassword e (rg_password v), u_name = rg_name v,
                      u_role = rg_role v, u_status = user_status_default e\<rparr>]" by blast
    from registerSchema_Inr(2) [OF v] show ?thesis unfolding us by auto
  qed
qed

theorem register_roles_witness:
  "field (req_body (register_request ''n@x'' (JStr ''ADMIN''))) ''role'' \<notin>
     {JStr ''STUDENT'', JStr ''TUTOR''} \<and>
   register env0 (register_request ''n@x'' (JStr ''ADMIN'')) db0 =
     (Response 400
        (ValidationBody ''Validation Error'' (Text ''Role must be either STUDENT or TUTOR'')
           [\<lparr>i_path = [''role''], i_code = invalid_enum_value,
             i_message = Text ''Role must be either STUDENT or TUTOR''\<rparr>]), db0) \<and>
   res_status (fst (register env0 (register_request ''n@x'' (JStr ''TUTOR'')) db0)) = 201 \<and>
   map u_role (users (snd (register env0 (register_request ''n@x'' (JStr ''TUTOR'')) db0))) =
     [STUDENT, STUDENT, TUTOR, TUTOR, ADMIN, TUTOR]"
  using register_roles [of "register_request ''n@x'' (JStr ''ADMIN'')" env0 db0]
    register_roles [of "register_request ''n@x'' (JStr ''TUTOR'')" env0 db0]
  by (simp add: register_eval)

section \<open>The guards of createBooking\<close>

lemmas booking_eval =
  createBooking_def createBooking_try_def createBookingSchema_def booking_request_def
  is_object_def uuid_string_def datetime_string_def duration_issues_def duration_of_def
  optional_string_def notes_issues_def the_string_def string_opt_def user_findUnique_def
  user_tutorProfile_def booking_create_def booking_status_default_def
  env0_def db0_def student1_def student2_def tutor1_def admin1_def Let_def

lemma createBooking_valid:
  assumes "req_user req = Some u"
    and "createBookingSchema e (req_body req) = Inr v"
    and "connected d"
  shows "createBooking e req d =
    (case find (\<lambda>t. u_id t = cb_tutorId v) (users d) of
       None \<Rightarrow> (Response 404 (ErrorBody ''Not Found'' ''Tutor not found''), d)
     | Some t \<Rightarrow>
         if u_role t \<noteq> TUTOR \<or> user_tutorProfile d t = None
         then (Response 404 (ErrorBody ''Not Found'' ''Tutor not found''), d)
         else if u_status t = BANNED
         then (Response 400 (ErrorBody ''Bad Request'' ''This tutor is not available''), d)
         else
           (Response 201
              (MessageBody ''Booking request sent! Awaiting tutor approval.''
                 (BookingData
                    \<lparr>b_id = new_id e, b_studentId = userId u, b_tutorId = cb_tutorId v,
                     b_dateTime = date_of e (cb_dateTime v), b_duration = cb_duration v,
                     b_subject = cb_subject v, b_notes = cb_notes v, b_status = PENDING\<rparr>)),
            d\<lparr>bookings := bookings d @
                 [\<lparr>b_id = new_id e, b_studentId = userId u, b_tutorId = cb_tutorId v,
                   b_dateTime = date_of e (cb_dateTime v), b_duration = cb_duration v,
                   b_subject = cb_subject v, b_notes = cb_notes v, b_status = PENDING\<rparr>]\<rparr>))"
  using assms
  by (simp add: createBooking_def createBooking_try_def user_findUnique_def booking_create_def
      booking_status_default_def Let_def split: option.split)

text \<open>
  C10. For an authenticated request whose body passes the schema, on a reachable
  database, with \<open>t\<close> the user row the body's \<open>tutorId\<close> names: when there is no such row,
  or its role is not \<open>TUTOR\<close>, or it has no tutor profile, the answer is 404 and the
  database is unchanged; when the row is a tutor with a profile whose status is \<open>BANNED\<close>,
  the answer is 400 with the message \<open>This tutor is not available\<close> and the database is
  unchanged; otherwise the answer is 201 and exactly one booking is added, from the
  requester to that tutor, with the status \<open>PENDING\<close>. So a booking is added only for an
  existing tutor with a profile who is not banned.
\<close>

theorem createBooking_guards:
  assumes "req_user req = Some u"
    and "createBookingSchema e (req_body req) = Inr v"
    and "connected d"
  shows "((find (\<lambda>t. u_id t = cb_tutorId v) (users d) = None \<or>
           (\<exists>t. find (\<lambda>t. u_id t = cb_tutorId v) (users d) = Some t \<and>
                (u_role t \<noteq> TUTOR \<or> user_tutorProfile d t = None))) \<longrightarrow>
            createBooking e req d =
              (Response 404 (ErrorBody ''Not Found'' ''Tutor not found''), d)) \<and>
         ((\<exists>t. find (\<lambda>t. u_id t = cb_tutorId v) (users d) = Some t \<and> u_role t = TUTOR \<and>
               user_tutorProfile d t \<noteq> None \<and> u_status t = BANNED) \<longrightarrow>
            createBooking e req d =
              (Response 400 (ErrorBody ''Bad Request'' ''This tutor is not available''), d)) \<and>
         ((\<exists>t. find (\<lambda>t. u_id t = cb_tutorId v) (users d) = Some t \<and> u_role t = TUTOR \<and>
               user_tutorProfile d t \<noteq> None \<and> u_status t \<noteq> BANNED) \<longleftrightarrow>
            res_status (fst (createBooking e req d)) = 201) \<and>
         (res_status (fst (createBooking e req d)) = 201 \<longleftrightarrow>
            bookings (snd (createBooking e req d)) \<noteq> bookings d) \<and>
         (res_status (fst (createBooking e req d)) = 201 \<longrightarrow>
            (\<exists>b. bookings (snd (createBooking e req d)) = bookings d @ [b] \<and>
                 res_body (fst (createBooking e req d)) =
                   MessageBody ''Booking request sent! Awaiting tutor approval.'' (BookingData b) \<and>
                 b_status b = PENDING \<and> b_tutorId b = cb_tutorId v \<and>
                 b_studentId b = userId u))"
  unfolding createBooking_valid [OF assms]
  by (auto split: option.split)

theorem createBooking_guards_witness:
  "req_user (booking_request student1 ''t1'') = Some student1 \<and>
   createBookingSchema env0 (req_body (booking_request student1 ''t1'')) =
     Inr \<lparr>cb_tutorId = ''t1'', cb_dateTime = ''d'', cb_duration = 60, cb_subject = None,
          cb_notes = None\<rparr> \<and>
   connected db0 \<and>
   res_status (fst (createBooking env0 (booking_request student1 ''t1'') db0)) = 201 \<and>
   map b_status (bookings (snd (createBooking env0 (booking_request student1 ''t1'') db0))) =
     [PENDING, CONFIRMED, COMPLETED, COMPLETED, CONFIRMED, PENDING] \<and>
   createBooking env0 (booking_request student1 ''t2'') db0 =
     (Response 400 (ErrorBody ''Bad Request'' ''This tutor is not available''), db0) \<and>
   createBooking env0 (booking_request student1 ''s2'') db0 =
     (Response 404 (ErrorBody ''Not Found'' ''Tutor not found''), db0) \<and>
   createBooking env0 (booking_request student1 ''zz'') db0 =
     (Response 404 (ErrorBody ''Not Found'' ''Tutor not found''), db0)"
  using createBooking_guards [of "booking_request student1 ''t1''" student1 env0
      "\<lparr>cb_tutorId = ''t1'', cb_dateTime = ''d'', cb_duration = 60, cb_subject = None,
        cb_notes = None\<rparr>" db0]
    createBooking_guards [of "booking_request student1 ''t2''" student1 env0
      "\<lparr>cb_tutorId = ''t2'', cb_dateTime = ''d'', cb_duration = 60, cb_subject = None,
        cb_notes = None\<rparr>" db0]
  by (simp add: booking_eval)

section \<open>The second text of updateBookingStatus checks no transition\<close>

text \<open>
  In the second text any authenticated user can set any existing booking to \<open>CONFIRMED\<close>,
  whatever its status; the graph of transitions and the time check belong to the first
  text alone, which is the one the properties above are about.
\<close>

lemma updateBookingStatus_by_status_confirm:
  assumes "req_user req = Some u"
    and "connected d"
    and "find (\<lambda>b. b_id b = req_id req) (bookings d) = Some b"
    and "field (req_body req) ''status'' = JStr ''CONFIRMED''"
  shows "updateBookingStatus_by_status req d =
           (Response 200
              (MessageBody ''Booking status updated successfully''
                 (BookingData (b\<lparr>b_status := CONFIRMED\<rparr>))),
            d\<lparr>bookings := map (\<lambda>x. if b_id x = req_id req then x\<lparr>b_status := CONFIRMED\<rparr> else x)
                              (bookings d)\<rparr>)"
proof -
  have "req_body req \<noteq> JUndefined" "req_body req \<noteq> JNull" using assms(4) by auto
  then show ?thesis using assms
    by (simp add: updateBookingStatus_by_status_def booking_findUnique_def booking_update_def
        status_named_def the_string_def Let_def)
qed

lemma updateBookingStatus_by_status_example:
  "res_status (fst (updateBookingStatus_by_status
     \<lparr>req_user = Some student2, req_id = ''b3'',
      req_body = JObj [(''status'', JStr ''CONFIRMED'')]\<rparr> db0)) = 200 \<and>
   map b_status (bookings (snd (updateBookingStatus_by_status
     \<lparr>req_user = Some student2, req_id = ''b3'',
      req_body = JObj [(''status'', JStr ''CONFIRMED'')]\<rparr> db0))) =
     [PENDING, CONFIRMED, CONFIRMED, COMPLETED, CONFIRMED]"
  by (simp add: updateBookingStatus_by_status_def booking_findUnique_def booking_update_def
      status_named_def the_string_def Let_def db0_def student2_def)

end
